theory Spec2Isabelle
  imports Main "HOL-Library.Sublist"
begin

section \<open>Strings, errors and the environment\<close>

text \<open>
  The program is \<^verbatim>\<open>src/lib/gls-infrastructure-stack.js\<close>: a validator for the stream
  group identifier, a stack constructor that declares one Lambda function, one policy
  statement and one REST API with five methods through the construct library, and a formatter for the
  usage instructions. JavaScript strings are modelled as \<^typ>\<open>string\<close>, a character
  being a code unit below 256; a thrown \<^verbatim>\<open>Error\<close> is a value carrying its message.
\<close>

datatype error = Error string

text \<open>
  \<^verbatim>\<open>process.env\<close> is a dictionary of strings. \<^verbatim>\<open>process.env.X || d\<close> yields \<open>d\<close>
  when the variable is unset and also when it is the empty string (the only falsy string).
\<close>

type_synonym env = "string \<rightharpoonup> string"

definition or_default :: "string option \<Rightarrow> string \<Rightarrow> string" where
  "or_default v d = (case v of None \<Rightarrow> d | Some s \<Rightarrow> (if s = [] then d else s))"

section \<open>Regular expressions as the validator uses them\<close>

text \<open>
  The fragment of the regular-expression language that occurs in the source: the two
  anchors, a literal character, and a character class, given by its ranges, under the
  quantifier \<^verbatim>\<open>{n,}\<close>. A pattern is the sequence of its terms.
\<close>

datatype rx_term =
    Bol
  | Eol
  | Lit char
  | AtLeast nat "(char \<times> char) list"

type_synonym regex = "rx_term list"

fun in_class :: "(char \<times> char) list \<Rightarrow> char \<Rightarrow> bool" where
  "in_class [] c = False"
| "in_class ((lo, hi) # rs) c =
     (((of_char lo :: nat) \<le> of_char c \<and> (of_char c :: nat) \<le> of_char hi) \<or> in_class rs c)"

text \<open>
  \<open>matches_at ts bol s\<close>: the terms \<open>ts\<close> match some prefix of the remaining input \<open>s\<close>;
  \<open>bol\<close> says that no character of the input has been passed yet. Without the
  multiline flag \<^verbatim>\<open>^\<close> holds only there and \<^verbatim>\<open>$\<close> only when no input remains. The
  quantifier is greedy with backtracking, which for a yes/no answer is the disjunction of
  taking one more character and going on with the rest of the pattern.
\<close>

fun matches_at :: "regex \<Rightarrow> bool \<Rightarrow> string \<Rightarrow> bool" where
  "matches_at [] bol s = True"
| "matches_at (Bol # ts) bol s = (bol \<and> matches_at ts bol s)"
| "matches_at (Eol # ts) bol s = (s = [] \<and> matches_at ts bol s)"
| "matches_at (Lit c # ts) bol [] = False"
| "matches_at (Lit c # ts) bol (x # xs) = (x = c \<and> matches_at ts False xs)"
| "matches_at (AtLeast (Suc n) rs # ts) bol [] = False"
| "matches_at (AtLeast (Suc n) rs # ts) bol (x # xs) =
     (in_class rs x \<and> matches_at (AtLeast n rs # ts) False xs)"
| "matches_at (AtLeast 0 rs # ts) bol [] = matches_at ts bol []"
| "matches_at (AtLeast 0 rs # ts) bol (x # xs) =
     ((in_class rs x \<and> matches_at (AtLeast 0 rs # ts) False xs) \<or> matches_at ts bol (x # xs))"

text \<open>
  \<^verbatim>\<open>String.prototype.match\<close> with a pattern that has no global flag tries every start
  index from 0 to the length of the input and returns \<^verbatim>\<open>null\<close> when none matches. The
  caller only tests the result for \<^verbatim>\<open>null\<close>, so the model returns whether a match exists.
\<close>

fun search_from :: "regex \<Rightarrow> bool \<Rightarrow> string \<Rightarrow> bool" where
  "search_from r bol [] = matches_at r bol []"
| "search_from r bol (x # xs) = (matches_at r bol (x # xs) \<or> search_from r False xs)"

definition String_match :: "string \<Rightarrow> regex \<Rightarrow> bool" where
  "String_match s r = search_from r True s"

section \<open>The identifier validator\<close>

text \<open>The pattern \<^verbatim>\<open>/^sg-[a-zA-Z0-9]{9,}$/\<close> of the source.\<close>

definition streamGroupId_regex :: regex where
  "streamGroupId_regex =
     [Bol, Lit (CHR ''s''), Lit (CHR ''g''), Lit (CHR ''-''),
      AtLeast 9 [(CHR ''a'', CHR ''z''), (CHR ''A'', CHR ''Z''), (CHR ''0'', CHR ''9'')],
      Eol]"

definition FormatError :: error where
  "FormatError = Error
     ''Invalid Stream Group ID format. Must match pattern: At least 9 alphanumeric characters after sg-''"

definition validateStreamGroupId :: "string \<Rightarrow> error + string" where
  "validateStreamGroupId ident =
     (if \<not> String_match ident streamGroupId_regex then Inl FormatError else Inr ident)"

text \<open>
  The pattern in the words of the specification: the prefix \<^verbatim>\<open>sg-\<close> followed by nine or
  more characters, each a Latin letter or a decimal digit.
\<close>

definition spec_alnum :: "char \<Rightarrow> bool" where
  "spec_alnum c =
     (c \<in> set ''ABCDEFGHIJKLMNOPQRSTUVWXYZabcdefghijklmnopqrstuvwxyz0123456789'')"

definition spec_pattern :: "string \<Rightarrow> bool" where
  "spec_pattern s =
     (take 3 s = ''sg-'' \<and> 9 \<le> length (drop 3 s) \<and> list_all spec_alnum (drop 3 s))"

section \<open>The instruction formatter\<close>

text \<open>
  \<^verbatim>\<open>String.prototype.trim\<close> removes white space and line terminators from both ends.
  Among the code units below 256 these are TAB, LF, VT, FF, CR, SP and NBSP.
\<close>

abbreviation LF :: char where
  "LF \<equiv> CHR 0x0A"

definition js_whitespace :: "char \<Rightarrow> bool" where
  "js_whitespace c = ((of_char c :: nat) \<in> {9, 10, 11, 12, 13, 32, 160})"

definition trim :: "string \<Rightarrow> string" where
  "trim s = rev (dropWhile js_whitespace (rev (dropWhile js_whitespace s)))"

text \<open>
  The template literal of \<^verbatim>\<open>generateInstructions\<close>, line by line, with its two
  interpolations. The parameter \<open>streamGroupId\<close> is accepted and not used.
\<close>

definition instructions_template :: "string \<Rightarrow> string \<Rightarrow> string" where
  "instructions_template apiUrl applicationId =
     [LF] @
     ''                                Instructions                                   '' @ [LF] @
     [LF] @
     [LF] @
     ''  Here is your Amazon GameLift Streams Share URL:                                                                                                                                                                    '' @ [LF] @
     ''  '' @ apiUrl @ ''?userId=Player1&applicationId='' @ applicationId @ ''&location=us-east-2'' @ [LF] @
     ''  '' @ [LF] @
     ''  Add or update arguments to your URL to share your stream:                             '' @ [LF] @
     ''  ?userId={Add Player Name}&applicationId={Add Application ID}&location={Add AWS Region} '' @ [LF] @
     [LF] @
     ''    ''"

definition generateInstructions :: "string \<Rightarrow> string \<Rightarrow> string \<Rightarrow> string" where
  "generateInstructions apiUrl streamGroupId applicationId =
     trim (instructions_template apiUrl applicationId)"

section \<open>The construct library as the stack uses it\<close>

text \<open>
  The stack is built by calls into the construct library. A construct becomes a record
  of the properties passed to it, and a call that mutates a construct returns the updated
  record. Constants of the library (\<^verbatim>\<open>Runtime.NODEJS_18_X\<close>, \<^verbatim>\<open>Cors.ALL_ORIGINS\<close>,
  ...) are constructors of the type of the property they fill.

  The library is not part of the repository; its calls are modelled with what they add
  to the role policy, to the functions of the stack and to the methods of the API,
  including what they add without being asked: the X-Ray statement for a traced
  function, the log retention provider function, and the \<^verbatim>\<open>OPTIONS\<close> preflight method
  on every resource of an API that has default CORS preflight options. Deployment,
  stage and the gateway's permissions to invoke the function are not modelled.
\<close>

datatype duration = Seconds nat | Days nat

fun toSeconds :: "duration \<Rightarrow> nat" where
  "toSeconds (Seconds n) = n"
| "toSeconds (Days n) = n * 86400"

datatype runtime = NODEJS_18_X | OtherRuntime string
datatype architecture = ARM_64 | X86_64
datatype tracing = ACTIVE | PASS_THROUGH | DISABLED
datatype retention_days = ONE_MONTH | OtherRetention nat
datatype effect = ALLOW | DENY
datatype cors_origins = ALL_ORIGINS | Origins "string list"
datatype cors_methods = ALL_METHODS | Methods "string list"
datatype logging_level = OFF | ERROR | INFO

text \<open>\<^verbatim>\<open>lambda.Code.fromAsset(path.join(__dirname, p))\<close>: the asset directory relative to the module.\<close>

datatype code = FromAsset_dirname_join string

record policy_statement =
  effect :: effect
  actions :: "string list"
  resources :: "string list"

record function_props =
  runtime :: runtime
  code :: code
  handler :: string
  memorySize :: nat
  timeout :: duration
  environment :: "(string \<times> string) list"
  architecture :: architecture
  tracing :: tracing
  logRetention :: retention_days

record lambda_function =
  function_id :: string
  function_props :: function_props
  role_policy :: "policy_statement list"

text \<open>
  The function constructor adds a statement to the role policy of a function whose
  tracing is not disabled, so that the function may write its traces.
\<close>

definition tracing_statements :: "tracing \<Rightarrow> policy_statement list" where
  "tracing_statements t =
     (if t = DISABLED then []
      else [\<lparr>effect = ALLOW,
             actions = [''xray:PutTraceSegments'', ''xray:PutTelemetryRecords''],
             resources = [''*'']\<rparr>])"

text \<open>
  For a function with a log retention the constructor also makes sure that the stack has
  the provider function that sets the retention: one for the whole stack, with a role
  of its own that may put and delete retention policies.
\<close>

record log_retention_provider =
  provider_policy :: "policy_statement list"

definition ensure_log_retention_provider ::
  "log_retention_provider list \<Rightarrow> log_retention_provider list" where
  "ensure_log_retention_provider providers =
     (if providers = []
      then [\<lparr>provider_policy =
               [\<lparr>effect = ALLOW,
                 actions = [''logs:PutRetentionPolicy'', ''logs:DeleteRetentionPolicy''],
                 resources = [''*'']\<rparr>]\<rparr>]
      else providers)"

definition new_Function ::
  "string \<Rightarrow> function_props \<Rightarrow> log_retention_provider list \<Rightarrow>
     lambda_function \<times> log_retention_provider list" where
  "new_Function ident fprops providers =
     (\<lparr>function_id = ident, function_props = fprops,
       role_policy = tracing_statements (tracing fprops)\<rparr>,
      ensure_log_retention_provider providers)"

definition addToRolePolicy :: "policy_statement \<Rightarrow> lambda_function \<Rightarrow> lambda_function" where
  "addToRolePolicy statement fn = fn\<lparr>role_policy := role_policy fn @ [statement]\<rparr>"

record cors_options =
  allowOrigins :: cors_origins
  allowMethods :: cors_methods
  allowHeaders :: "string list"
  maxAge :: duration

record stage_options =
  loggingLevel :: logging_level
  dataTraceEnabled :: bool
  tracingEnabled :: bool

record rest_api_props =
  restApiName :: string
  description :: string
  defaultCorsPreflightOptions :: cors_options
  deployOptions :: stage_options

record lambda_integration =
  integration_handler :: string
  proxy :: bool
  integration_timeout :: duration

text \<open>
  A method is backed by the Lambda integration that the source constructs or, for a
  preflight method, by the mock integration of the library.
\<close>

datatype integration = LambdaIntegration lambda_integration | MockIntegration

definition new_LambdaIntegration :: "lambda_function \<Rightarrow> bool \<Rightarrow> duration \<Rightarrow> integration" where
  "new_LambdaIntegration fn p t =
     LambdaIntegration
       \<lparr>integration_handler = function_id fn, proxy = p, integration_timeout = t\<rparr>"

text \<open>
  A resource of the API is the root, a named child of a resource (\<^verbatim>\<open>addResource\<close>), or the
  greedy proxy child of a resource (\<^verbatim>\<open>addProxy\<close>), which stands for every path below its
  parent that no other resource names.
\<close>

datatype resource = Root | Child resource string | Proxy resource

record method_response =
  statusCode :: string
  responseParameters :: "(string \<times> bool) list option"

text \<open>
  A method is one route entry: a resource, a verb, the integration behind it and the
  declared responses (\<open>None\<close> when the call passes no method options).
\<close>

record method_entry =
  resource :: resource
  httpMethod :: string
  integration :: integration
  methodResponses :: "method_response list option"

record rest_api =
  api_id :: string
  api_props :: rest_api_props
  api_resources :: "resource list"
  api_methods :: "method_entry list"

definition resource_addMethod ::
  "resource \<Rightarrow> string \<Rightarrow> integration \<Rightarrow> method_response list option \<Rightarrow> rest_api \<Rightarrow> rest_api" where
  "resource_addMethod r verb target responses api =
     api\<lparr>api_methods := api_methods api @
       [\<lparr>resource = r, httpMethod = verb, integration = target, methodResponses = responses\<rparr>]\<rparr>"

text \<open>
  The preflight method. Its one response has status 204 and a flag for each header the
  preflight answer sets: the allowed headers, the allowed origin (with \<^verbatim>\<open>Vary\<close> when
  the first origin is not \<^verbatim>\<open>*\<close>), the allowed methods and, for a cache duration that is
  not zero, the maximal age.
\<close>

definition preflight_headers :: "cors_options \<Rightarrow> string list" where
  "preflight_headers opts =
     [''Access-Control-Allow-Headers'', ''Access-Control-Allow-Origin''] @
     (case allowOrigins opts of
        ALL_ORIGINS \<Rightarrow> []
      | Origins os \<Rightarrow> (if take 1 os = [''*''] then [] else [''Vary''])) @
     [''Access-Control-Allow-Methods''] @
     (if toSeconds (maxAge opts) = 0 then [] else [''Access-Control-Max-Age''])"

definition addCorsPreflight :: "cors_options \<Rightarrow> resource \<Rightarrow> rest_api \<Rightarrow> rest_api" where
  "addCorsPreflight opts r api =
     resource_addMethod r ''OPTIONS'' MockIntegration
       (Some
         [\<lparr>statusCode = ''204'',
           responseParameters = Some
             (map (\<lambda>h. (''method.response.header.'' @ h, True)) (preflight_headers opts))\<rparr>])
       api"

text \<open>
  The API starts with its root resource. The root and every resource added later take
  the default CORS preflight options of the API, and a resource that has such options
  gets its preflight method when it is constructed.
\<close>

definition new_RestApi :: "string \<Rightarrow> rest_api_props \<Rightarrow> rest_api" where
  "new_RestApi ident rprops =
     addCorsPreflight (defaultCorsPreflightOptions rprops) Root
       \<lparr>api_id = ident, api_props = rprops, api_resources = [Root], api_methods = []\<rparr>"

definition addResource :: "resource \<Rightarrow> string \<Rightarrow> rest_api \<Rightarrow> resource \<times> rest_api" where
  "addResource parent pathPart api =
     (Child parent pathPart,
      addCorsPreflight (defaultCorsPreflightOptions (api_props api)) (Child parent pathPart)
        (api\<lparr>api_resources := api_resources api @ [Child parent pathPart]\<rparr>))"

text \<open>
  \<^verbatim>\<open>addProxy({defaultIntegration, anyMethod})\<close> adds the proxy resource under the parent,
  which gets its preflight method like every resource, and, when \<open>anyMethod\<close> is set,
  the method \<^verbatim>\<open>ANY\<close> with the default integration and no method options. (For a proxy
  under a root that lacks a method of the same verb the library adds that method to the
  root as well. The root of this stack has \<^verbatim>\<open>OPTIONS\<close> and \<^verbatim>\<open>ANY\<close> before the proxy is
  added, so that case is left out.)
\<close>

definition addProxy :: "resource \<Rightarrow> integration \<Rightarrow> bool \<Rightarrow> rest_api \<Rightarrow> rest_api" where
  "addProxy parent defaultIntegration anyMethod api =
     (let api' = addCorsPreflight (defaultCorsPreflightOptions (api_props api)) (Proxy parent)
            (api\<lparr>api_resources := api_resources api @ [Proxy parent]\<rparr>)
      in if anyMethod then resource_addMethod (Proxy parent) ''ANY'' defaultIntegration None api'
         else api')"

record cfn_output =
  output_id :: string
  output_value :: string
  output_description :: string

section \<open>The stack\<close>

record stack_props =
  streamGroupId :: string
  applicationId :: string
  account :: "string option"
  region :: "string option"

record stack =
  stack_id :: string
  props :: stack_props
  lambda_functions :: "lambda_function list"
  log_retention_providers :: "log_retention_provider list"
  apis :: "rest_api list"
  outputs :: "cfn_output list"

text \<open>The helper \<^verbatim>\<open>addMethod\<close> local to the constructor: every call passes the same responses.\<close>

definition addMethod :: "integration \<Rightarrow> resource \<Rightarrow> string \<Rightarrow> rest_api \<Rightarrow> rest_api" where
  "addMethod lambdaIntegration r verb api =
     resource_addMethod r verb lambdaIntegration
       (Some
         [\<lparr>statusCode = ''200'',
           responseParameters = Some
             [(''method.response.header.Content-Type'', True),
              (''method.response.header.Access-Control-Allow-Origin'', True),
              (''method.response.header.Access-Control-Allow-Headers'', True),
              (''method.response.header.Access-Control-Allow-Methods'', True)]\<rparr>,
          \<lparr>statusCode = ''400'', responseParameters = None\<rparr>,
          \<lparr>statusCode = ''500'', responseParameters = None\<rparr>])
       api"

text \<open>
  The constructor. \<open>api_url\<close> is the value of \<^verbatim>\<open>api.url\<close>, which the library supplies.
  The statements follow the source in order.
\<close>

definition GLSInfrastructureStack :: "string \<Rightarrow> stack_props \<Rightarrow> string \<Rightarrow> stack" where
  "GLSInfrastructureStack ident sprops api_url =
     (let (serverLambda0, providers) = new_Function ''GameLiftStreamsServerLambda''
            \<lparr>runtime = NODEJS_18_X,
             code = FromAsset_dirname_join ''../server'',
             handler = ''server.handler'',
             memorySize = 512,
             timeout = Seconds 300,
             environment =
               [(''STREAM_GROUP_ID'', streamGroupId sprops),
                (''APPLICATION_ID'', applicationId sprops),
                (''NODE_OPTIONS'', ''--enable-source-maps'')],
             architecture = ARM_64,
             tracing = ACTIVE,
             logRetention = ONE_MONTH\<rparr>
            [];
          serverLambda = addToRolePolicy
            \<lparr>effect = ALLOW,
             actions =
               [''gameliftstreams:StartStreamSession'',
                ''gameliftstreams:GetStreamSession'',
                ''gameliftstreams:TerminateStreamSession''],
             resources =
               [''arn:aws:gameliftstreams:*:*:application/*'',
                ''arn:aws:gameliftstreams:*:*:streamgroup/'' @ streamGroupId sprops]\<rparr>
            serverLambda0;
          api0 = new_RestApi ''GameLiftStreamsShareUrlApi''
            \<lparr>restApiName = ''GameLiftStreams Share Api'',
             description = ''API for the GameLiftStreams Share application'',
             defaultCorsPreflightOptions =
               \<lparr>allowOrigins = ALL_ORIGINS,
                allowMethods = ALL_METHODS,
                allowHeaders =
                  [''Content-Type'', ''X-Amz-Date'', ''Authorization'', ''X-Api-Key'',
                   ''X-Amz-Security-Token''],
                maxAge = Days 1\<rparr>,
             deployOptions =
               \<lparr>loggingLevel = INFO, dataTraceEnabled = True, tracingEnabled = True\<rparr>\<rparr>;
          lambdaIntegration = new_LambdaIntegration serverLambda True (Seconds 29);
          api1 = addMethod lambdaIntegration Root ''ANY'' api0;
          (apiResource, api2) = addResource Root ''api'' api1;
          (create, api3) = addResource apiResource ''CreateStreamSession'' api2;
          api4 = addMethod lambdaIntegration create ''POST'' api3;
          (signal, api5) = addResource apiResource ''GetSignalResponse'' api4;
          api6 = addMethod lambdaIntegration signal ''POST'' api5;
          (destroy, api7) = addResource apiResource ''DestroyStreamSession'' api6;
          api8 = addMethod lambdaIntegration destroy ''POST'' api7;
          api = addProxy Root lambdaIntegration True api8;
          instructions =
            \<lparr>output_id = ''Instructions'',
             output_value =
               generateInstructions api_url (streamGroupId sprops) (applicationId sprops),
             output_description = ''Instructions for using the GameLiftStreams Share URL''\<rparr>
      in \<lparr>stack_id = ident, props = sprops, lambda_functions = [serverLambda],
          log_retention_providers = providers, apis = [api], outputs = [instructions]\<rparr>)"

text \<open>
  What the descriptor holds: the permission grants of its compute units (the statements
  of the role policies of its functions), its routes and its CORS policies.
\<close>

definition grants :: "stack \<Rightarrow> policy_statement list" where
  "grants s = concat (map role_policy (lambda_functions s))"

definition routes :: "stack \<Rightarrow> method_entry list" where
  "routes s = concat (map api_methods (apis s))"

definition cors_policies :: "stack \<Rightarrow> cors_options list" where
  "cors_policies s = map (\<lambda>a. defaultCorsPreflightOptions (api_props a)) (apis s)"

section \<open>Module initialisation\<close>

text \<open>
  The statements at the end of the module: the app is created, the identifier is read
  from the environment and validated, and only then is the stack constructed in the app.
  A throw ends the run; the result pairs the outcome with the app as it then stands.
\<close>

record app =
  stacks :: "stack list"

definition new_App :: app where
  "new_App = \<lparr>stacks = []\<rparr>"

definition app_initialization :: "env \<Rightarrow> string \<Rightarrow> (error + unit) \<times> app" where
  "app_initialization env api_url =
     (let app = new_App
      in case validateStreamGroupId (or_default (env ''STREAM_GROUP_ID'') ''sg-000000000'') of
           Inl e \<Rightarrow> (Inl e, app)
         | Inr sgid \<Rightarrow>
             (Inr (),
              app\<lparr>stacks := stacks app @
                [GLSInfrastructureStack ''GameLiftStreamsGLSInfrastructureStack''
                   \<lparr>streamGroupId = sgid,
                    applicationId = or_default (env ''APPLICATION_ID'') ''a-000000000'',
                    account = env ''CDK_DEFAULT_ACCOUNT'',
                    region = env ''CDK_DEFAULT_REGION''\<rparr>
                   api_url]\<rparr>))"

text \<open>Everything the app holds that could be handed on: the grants and routes of its stacks.\<close>

definition app_grants :: "app \<Rightarrow> policy_statement list" where
  "app_grants a = concat (map grants (stacks a))"

definition app_routes :: "app \<Rightarrow> method_entry list" where
  "app_routes a = concat (map routes (stacks a))"

section \<open>The validator accepts exactly the specified pattern\<close>

lemma spec_alnum_ranges:
  "spec_alnum c =
     ((97 \<le> (of_char c :: nat) \<and> (of_char c :: nat) \<le> 122) \<or>
      (65 \<le> (of_char c :: nat) \<and> (of_char c :: nat) \<le> 90) \<or>
      (48 \<le> (of_char c :: nat) \<and> (of_char c :: nat) \<le> 57))"
proof -
  have "spec_alnum c = ((of_char c :: nat) \<in>
      of_char ` set ''ABCDEFGHIJKLMNOPQRSTUVWXYZabcdefghijklmnopqrstuvwxyz0123456789'')"
    unfolding spec_alnum_def by (rule inj_image_mem_iff[symmetric]) (simp add: inj_def)
  also have "\<dots> = ((of_char c :: nat) \<in> {65..90} \<union> {97..122} \<union> {48..57})"
    by (simp only: atLeastAtMost_upt) (simp add: insert_commute)
  finally show ?thesis by auto
qed

lemma in_class_alnum:
  "in_class [(CHR ''a'', CHR ''z''), (CHR ''A'', CHR ''Z''), (CHR ''0'', CHR ''9'')] = spec_alnum"
  by (rule ext) (simp add: spec_alnum_ranges)

lemma matches_at_AtLeast_Eol:
  "matches_at [AtLeast n rs, Eol] b s = (n \<le> length s \<and> list_all (in_class rs) s)"
proof (induction s arbitrary: n b)
  case Nil
  then show ?case by (cases n) simp_all
next
  case (Cons x xs)
  then show ?case by (cases n) auto
qed

lemma matches_at_three_literals:
  "matches_at (Lit a # Lit b # Lit c # ts) bol s =
     (take 3 s = [a, b, c] \<and> matches_at ts False (drop 3 s))"
proof (cases s)
  case Nil
  then show ?thesis by simp
next
  case s1: (Cons x xs)
  show ?thesis
  proof (cases xs)
    case Nil
    with s1 show ?thesis by simp
  next
    case s2: (Cons y ys)
    with s1 show ?thesis by (cases ys) auto
  qed
qed

lemma search_from_Bol_passed: "search_from (Bol # ts) False s = False"
  by (induction s) simp_all

lemma String_match_anchored: "String_match s (Bol # ts) = matches_at ts True s"
  by (cases s) (simp_all add: String_match_def search_from_Bol_passed)

lemma String_match_streamGroupId_regex:
  "String_match s streamGroupId_regex = spec_pattern s"
  unfolding streamGroupId_regex_def String_match_anchored matches_at_three_literals
    matches_at_AtLeast_Eol in_class_alnum spec_pattern_def
  by simp

lemma validateStreamGroupId_cases:
  "validateStreamGroupId s = (if spec_pattern s then Inr s else Inl FormatError)"
  by (simp add: validateStreamGroupId_def String_match_streamGroupId_regex)

lemma spec_pattern_sg_append:
  "spec_pattern (CHR ''s'' # CHR ''g'' # CHR ''-'' # suf) =
     (9 \<le> length suf \<and> list_all spec_alnum suf)"
  by (simp add: spec_pattern_def)

text \<open>
  C1. For every string \<open>s\<close>, \<open>validateStreamGroupId s\<close> returns \<open>s\<close> unchanged exactly
  when \<open>s\<close> is \<^verbatim>\<open>sg-\<close> followed by nine or more alphanumerics, and raises the format error
  for every other string: a wrong prefix, fewer than nine characters after the prefix, a
  character after the prefix that is not alphanumeric, or the empty string. With exactly
  nine alphanumerics after \<^verbatim>\<open>sg-\<close> it passes, with eight it fails.
\<close>

theorem validateStreamGroupId_accepts_iff_pattern:
  "(validateStreamGroupId s = Inr s \<longleftrightarrow> spec_pattern s) \<and>
   (\<not> spec_pattern s \<longrightarrow> validateStreamGroupId s = Inl FormatError) \<and>
   (take 3 s \<noteq> ''sg-'' \<longrightarrow> validateStreamGroupId s = Inl FormatError) \<and>
   (length (drop 3 s) < 9 \<longrightarrow> validateStreamGroupId s = Inl FormatError) \<and>
   (c \<in> set (drop 3 s) \<and> \<not> spec_alnum c \<longrightarrow> validateStreamGroupId s = Inl FormatError) \<and>
   validateStreamGroupId [] = Inl FormatError \<and>
   (length suf = 9 \<and> list_all spec_alnum suf \<longrightarrow>
      validateStreamGroupId (''sg-'' @ suf) = Inr (''sg-'' @ suf)) \<and>
   (length suf = 8 \<longrightarrow> validateStreamGroupId (''sg-'' @ suf) = Inl FormatError)"
proof -
  have "validateStreamGroupId s = Inr s \<longleftrightarrow> spec_pattern s"
    by (simp add: validateStreamGroupId_cases)
  moreover have "\<not> spec_pattern s \<longrightarrow> validateStreamGroupId s = Inl FormatError"
    by (simp add: validateStreamGroupId_cases)
  moreover have "take 3 s \<noteq> ''sg-'' \<longrightarrow> validateStreamGroupId s = Inl FormatError"
    by (simp add: validateStreamGroupId_cases spec_pattern_def)
  moreover have "length (drop 3 s) < 9 \<longrightarrow> validateStreamGroupId s = Inl FormatError"
    by (simp add: validateStreamGroupId_cases spec_pattern_def)
  moreover have "c \<in> set (drop 3 s) \<and> \<not> spec_alnum c \<longrightarrow>
      validateStreamGroupId s = Inl FormatError"
    by (auto simp add: validateStreamGroupId_cases spec_pattern_def list_all_iff)
  moreover have "validateStreamGroupId [] = Inl FormatError"
    by (simp add: validateStreamGroupId_cases spec_pattern_def)
  moreover have "length suf = 9 \<and> list_all spec_alnum suf \<longrightarrow>
      validateStreamGroupId (''sg-'' @ suf) = Inr (''sg-'' @ suf)"
    by (simp add: validateStreamGroupId_cases spec_pattern_sg_append)
  moreover have "length suf = 8 \<longrightarrow> validateStreamGroupId (''sg-'' @ suf) = Inl FormatError"
    by (simp add: validateStreamGroupId_cases spec_pattern_sg_append)
  ultimately show ?thesis by blast
qed

theorem validateStreamGroupId_accepts_iff_pattern_witness:
  "spec_pattern ''sg-abc123456'' \<and>
   validateStreamGroupId ''sg-abc123456'' = Inr ''sg-abc123456'' \<and>
   length ''abc123456'' = 9 \<and> list_all spec_alnum ''abc123456'' \<and>
   \<not> spec_pattern ''xg-abc12_'' \<and>
   take 3 ''xg-abc12_'' \<noteq> ''sg-'' \<and>
   length (drop 3 ''xg-abc12_'') < 9 \<and>
   CHR ''_'' \<in> set (drop 3 ''xg-abc12_'') \<and> \<not> spec_alnum (CHR ''_'') \<and>
   validateStreamGroupId ''xg-abc12_'' = Inl FormatError \<and>
   length ''abc12345'' = 8 \<and>
   validateStreamGroupId ''sg-abc12345'' = Inl FormatError"
proof -
  have ok: "spec_pattern ''sg-abc123456''"
    by (simp add: spec_pattern_def spec_alnum_def)
  have nine: "length ''abc123456'' = 9 \<and> list_all spec_alnum ''abc123456''"
    by (simp add: spec_alnum_def)
  have bad: "\<not> spec_pattern ''xg-abc12_''"
    by (simp add: spec_pattern_def)
  have pre: "take 3 ''xg-abc12_'' \<noteq> ''sg-''" by simp
  have short: "length (drop 3 ''xg-abc12_'') < 9" by simp
  have ch: "CHR ''_'' \<in> set (drop 3 ''xg-abc12_'') \<and> \<not> spec_alnum (CHR ''_'')"
    by (simp add: spec_alnum_def)
  have eight: "length ''abc12345'' = 8" by simp
  note good = validateStreamGroupId_accepts_iff_pattern
    [of "''sg-abc123456''" "CHR ''_''" "''abc123456''"]
  note fail = validateStreamGroupId_accepts_iff_pattern
    [of "''xg-abc12_''" "CHR ''_''" "''abc12345''"]
  from good ok have r1: "validateStreamGroupId ''sg-abc123456'' = Inr ''sg-abc123456''"
    by blast
  from fail bad have r2: "validateStreamGroupId ''xg-abc12_'' = Inl FormatError"
    by blast
  from fail eight have r3: "validateStreamGroupId (''sg-'' @ ''abc12345'') = Inl FormatError"
    by blast
  from r3 have r3': "validateStreamGroupId ''sg-abc12345'' = Inl FormatError" by simp
  from ok nine bad pre short ch eight r1 r2 r3' show ?thesis by blast
qed

section \<open>The instruction formatter embeds the share URL\<close>

lemma trim_append_middle:
  assumes a: "a \<in> set A" "\<not> js_whitespace a"
      and b: "b \<in> set B" "\<not> js_whitespace b"
  shows "trim (A @ x @ B) =
           dropWhile js_whitespace A @ x @ rev (dropWhile js_whitespace (rev B))"
proof -
  have "dropWhile js_whitespace (A @ x @ B) = dropWhile js_whitespace A @ x @ B"
    using a by (rule dropWhile_append1)
  moreover have "dropWhile js_whitespace (rev B @ rev x @ rev (dropWhile js_whitespace A)) =
      dropWhile js_whitespace (rev B) @ rev x @ rev (dropWhile js_whitespace A)"
    using b by (intro dropWhile_append1[of b]) simp_all
  ultimately show ?thesis by (simp add: trim_def)
qed

lemma generateInstructions_split:
  "\<exists>ps ss. \<forall>u g a. generateInstructions u g a =
      ps @ (u @ ''?userId=Player1&applicationId='' @ a @ ''&location=us-east-2'') @ ss"
proof -
  define A where "A =
       [LF] @
       ''                                Instructions                                   '' @ [LF] @
       [LF] @
       [LF] @
       ''  Here is your Amazon GameLift Streams Share URL:                                                                                                                                                                    '' @ [LF] @
       ''  ''"
  define B where "B =
       [LF] @
       ''  '' @ [LF] @
       ''  Add or update arguments to your URL to share your stream:                             '' @ [LF] @
       ''  ?userId={Add Player Name}&applicationId={Add Application ID}&location={Add AWS Region} '' @ [LF] @
       [LF] @
       ''    ''"
  have split: "instructions_template u a =
      A @ (u @ ''?userId=Player1&applicationId='' @ a @ ''&location=us-east-2'') @ B" for u a
    by (simp add: instructions_template_def A_def B_def)
  have A: "CHR ''I'' \<in> set A" unfolding A_def by simp
  have B: "CHR ''}'' \<in> set B" unfolding B_def by simp
  have "generateInstructions u g a = dropWhile js_whitespace A @
      (u @ ''?userId=Player1&applicationId='' @ a @ ''&location=us-east-2'') @
      rev (dropWhile js_whitespace (rev B))" for u g a
    unfolding generateInstructions_def split
    by (rule trim_append_middle[OF A _ B]) (simp_all add: js_whitespace_def)
  then show ?thesis by blast
qed

text \<open>
  C6. For every base URL, stream group identifier and application identifier the
  formatter returns a string (it has no failure mode) that contains the base URL followed
  by \<^verbatim>\<open>?userId=Player1&applicationId=\<close>, the application identifier and
  \<^verbatim>\<open>&location=us-east-2\<close>; in particular so at the inputs of the example.
\<close>

theorem generateInstructions_contains_url:
  "sublist (baseUrl @ ''?userId=Player1&applicationId='' @ appId @ ''&location=us-east-2'')
     (generateInstructions baseUrl sgId appId) \<and>
   sublist ''https://x.example/prod?userId=Player1&applicationId=a-1&location=us-east-2''
     (generateInstructions ''https://x.example/prod'' ''sg-abc123456'' ''a-1'')"
proof -
  obtain ps ss where eq: "\<And>u g a. generateInstructions u g a =
      ps @ (u @ ''?userId=Player1&applicationId='' @ a @ ''&location=us-east-2'') @ ss"
    using generateInstructions_split by blast
  have gen: "sublist (u @ ''?userId=Player1&applicationId='' @ a @ ''&location=us-east-2'')
      (generateInstructions u g a)" for u g a
    unfolding eq by (rule sublist_appendI)
  from gen[of "''https://x.example/prod''" "''a-1''" "''sg-abc123456''"] gen[of baseUrl appId sgId]
  show ?thesis by simp
qed

text \<open>
  C10. The output of the formatter does not depend on its stream group identifier
  argument: any two values of it give the same text for the same base URL and
  application identifier.
\<close>

theorem generateInstructions_ignores_streamGroupId:
  "generateInstructions baseUrl g1 appId = generateInstructions baseUrl g2 appId"
  by (simp add: generateInstructions_def)

section \<open>What the stack declares\<close>

lemmas stack_defs =
  GLSInfrastructureStack_def Let_def new_Function_def tracing_statements_def
  ensure_log_retention_provider_def addToRolePolicy_def new_RestApi_def
  new_LambdaIntegration_def addMethod_def addResource_def resource_addMethod_def
  addCorsPreflight_def preflight_headers_def addProxy_def

text \<open>
  C2. For every stream group identifier \<open>g\<close> (in particular every validated one) the
  call of \<^verbatim>\<open>addToRolePolicy\<close> adds exactly one grant to the role policy of the function,
  behind the X-Ray statement that the function constructor put there: its actions are
  the three streaming operations (start, get and terminate stream session) and its
  resources are exactly two patterns, the wildcard application pattern and a stream
  group pattern that contains \<open>g\<close> as a substring. It is the only statement of the
  policy with these actions.
\<close>

theorem addToRolePolicy_adds_one_grant_scoped_to_streamGroupId:
  "\<exists>pat.
     pat = ''arn:aws:gameliftstreams:*:*:streamgroup/'' @ g \<and>
     sublist g pat \<and>
     grants (GLSInfrastructureStack i
        \<lparr>streamGroupId = g, applicationId = a, account = acc, region = reg\<rparr> u) =
       tracing_statements ACTIVE @
       [\<lparr>effect = ALLOW,
         actions =
           [''gameliftstreams:StartStreamSession'',
            ''gameliftstreams:GetStreamSession'',
            ''gameliftstreams:TerminateStreamSession''],
         resources = [''arn:aws:gameliftstreams:*:*:application/*'', pat]\<rparr>] \<and>
     filter (\<lambda>s. actions s =
           [''gameliftstreams:StartStreamSession'',
            ''gameliftstreams:GetStreamSession'',
            ''gameliftstreams:TerminateStreamSession''])
       (grants (GLSInfrastructureStack i
          \<lparr>streamGroupId = g, applicationId = a, account = acc, region = reg\<rparr> u)) =
       [\<lparr>effect = ALLOW,
         actions =
           [''gameliftstreams:StartStreamSession'',
            ''gameliftstreams:GetStreamSession'',
            ''gameliftstreams:TerminateStreamSession''],
         resources = [''arn:aws:gameliftstreams:*:*:application/*'', pat]\<rparr>]"
proof -
  have "sublist g (''arn:aws:gameliftstreams:*:*:streamgroup/'' @ g)"
    by (rule sublist_append_leftI)
  then show ?thesis
    by (simp add: grants_def stack_defs)
qed

text \<open>
  C3, as stated, fails: the route table of the stack has eleven entries, among them an
  \<^verbatim>\<open>OPTIONS\<close> entry on \<^verbatim>\<open>/api\<close>, which is none of the five.
\<close>

theorem routes_exactly_five_counterexample:
  "length (routes (GLSInfrastructureStack ''S''
      \<lparr>streamGroupId = ''sg-abc123456'', applicationId = ''a-1'', account = None,
       region = None\<rparr> ''u'')) \<noteq> 5 \<and>
   resource (routes (GLSInfrastructureStack ''S''
      \<lparr>streamGroupId = ''sg-abc123456'', applicationId = ''a-1'', account = None,
       region = None\<rparr> ''u'') ! 2) = Child Root ''api'' \<and>
   httpMethod (routes (GLSInfrastructureStack ''S''
      \<lparr>streamGroupId = ''sg-abc123456'', applicationId = ''a-1'', account = None,
       region = None\<rparr> ''u'') ! 2) = ''OPTIONS''"
  by (simp add: routes_def stack_defs)

text \<open>
  C3, amended. The route table has exactly eleven entries. Five are the ones the source
  declares: the root with verb \<^verbatim>\<open>ANY\<close>; \<^verbatim>\<open>/api/CreateStreamSession\<close>,
  \<^verbatim>\<open>/api/GetSignalResponse\<close> and \<^verbatim>\<open>/api/DestroyStreamSession\<close>, each with verb
  \<^verbatim>\<open>POST\<close>; and the catch-all proxy under the root with verb \<^verbatim>\<open>ANY\<close>. They are the
  only entries whose verb is not \<^verbatim>\<open>OPTIONS\<close>. The other six are the preflight entries
  that the default CORS preflight options put on each resource: the root, \<^verbatim>\<open>/api\<close>, the
  three named paths and the proxy.
\<close>

theorem routes_five_declared_six_preflight:
  "map (\<lambda>m. (resource m, httpMethod m)) (routes (GLSInfrastructureStack i p u)) =
     [(Root, ''OPTIONS''),
      (Root, ''ANY''),
      (Child Root ''api'', ''OPTIONS''),
      (Child (Child Root ''api'') ''CreateStreamSession'', ''OPTIONS''),
      (Child (Child Root ''api'') ''CreateStreamSession'', ''POST''),
      (Child (Child Root ''api'') ''GetSignalResponse'', ''OPTIONS''),
      (Child (Child Root ''api'') ''GetSignalResponse'', ''POST''),
      (Child (Child Root ''api'') ''DestroyStreamSession'', ''OPTIONS''),
      (Child (Child Root ''api'') ''DestroyStreamSession'', ''POST''),
      (Proxy Root, ''OPTIONS''),
      (Proxy Root, ''ANY'')] \<and>
   map (\<lambda>m. (resource m, httpMethod m))
       (filter (\<lambda>m. httpMethod m \<noteq> ''OPTIONS'') (routes (GLSInfrastructureStack i p u))) =
     [(Root, ''ANY''),
      (Child (Child Root ''api'') ''CreateStreamSession'', ''POST''),
      (Child (Child Root ''api'') ''GetSignalResponse'', ''POST''),
      (Child (Child Root ''api'') ''DestroyStreamSession'', ''POST''),
      (Proxy Root, ''ANY'')] \<and>
   length (routes (GLSInfrastructureStack i p u)) = 11"
  by (simp add: routes_def stack_defs)

text \<open>
  C7, as stated, fails: the first route entry is the preflight entry on the root, which is
  not the catch-all, and it declares a single response with status 204 and no response
  with status 200, 400 or 500.
\<close>

theorem named_routes_share_response_contract_counterexample:
  "resource (routes (GLSInfrastructureStack ''S''
      \<lparr>streamGroupId = ''sg-abc123456'', applicationId = ''a-1'', account = None,
       region = None\<rparr> ''u'') ! 0) = Root \<and>
   Root \<noteq> Proxy Root \<and>
   methodResponses (routes (GLSInfrastructureStack ''S''
      \<lparr>streamGroupId = ''sg-abc123456'', applicationId = ''a-1'', account = None,
       region = None\<rparr> ''u'') ! 0) = Some
       [\<lparr>statusCode = ''204'',
         responseParameters = Some
           [(''method.response.header.Access-Control-Allow-Headers'', True),
            (''method.response.header.Access-Control-Allow-Origin'', True),
            (''method.response.header.Access-Control-Allow-Methods'', True),
            (''method.response.header.Access-Control-Max-Age'', True)]\<rparr>] \<and>
   methodResponses (routes (GLSInfrastructureStack ''S''
      \<lparr>streamGroupId = ''sg-abc123456'', applicationId = ''a-1'', account = None,
       region = None\<rparr> ''u'') ! 0) \<noteq> Some
       [\<lparr>statusCode = ''200'',
         responseParameters = Some
           [(''method.response.header.Content-Type'', True),
            (''method.response.header.Access-Control-Allow-Origin'', True),
            (''method.response.header.Access-Control-Allow-Headers'', True),
            (''method.response.header.Access-Control-Allow-Methods'', True)]\<rparr>,
        \<lparr>statusCode = ''400'', responseParameters = None\<rparr>,
        \<lparr>statusCode = ''500'', responseParameters = None\<rparr>]"
  by (simp add: routes_def stack_defs)

text \<open>
  C7, amended. Every route entry other than the catch-all and the \<^verbatim>\<open>OPTIONS\<close> preflight
  entries carries the same declared responses: status 200 with exactly four header
  flags, all set (Content-Type and the three Access-Control-Allow headers), then status
  400 and status 500 with no headers.
\<close>

theorem declared_named_routes_share_response_contract:
  "\<forall>m \<in> set (routes (GLSInfrastructureStack i p u)).
     resource m \<noteq> Proxy Root \<longrightarrow> httpMethod m \<noteq> ''OPTIONS'' \<longrightarrow>
     methodResponses m = Some
       [\<lparr>statusCode = ''200'',
         responseParameters = Some
           [(''method.response.header.Content-Type'', True),
            (''method.response.header.Access-Control-Allow-Origin'', True),
            (''method.response.header.Access-Control-Allow-Headers'', True),
            (''method.response.header.Access-Control-Allow-Methods'', True)]\<rparr>,
        \<lparr>statusCode = ''400'', responseParameters = None\<rparr>,
        \<lparr>statusCode = ''500'', responseParameters = None\<rparr>]"
  by (simp add: routes_def stack_defs)

theorem declared_named_routes_share_response_contract_witness:
  "routes (GLSInfrastructureStack ''S''
      \<lparr>streamGroupId = ''sg-abc123456'', applicationId = ''a-1'', account = None,
       region = None\<rparr> ''u'') ! 4
     \<in> set (routes (GLSInfrastructureStack ''S''
      \<lparr>streamGroupId = ''sg-abc123456'', applicationId = ''a-1'', account = None,
       region = None\<rparr> ''u'')) \<and>
   resource (routes (GLSInfrastructureStack ''S''
      \<lparr>streamGroupId = ''sg-abc123456'', applicationId = ''a-1'', account = None,
       region = None\<rparr> ''u'') ! 4) \<noteq> Proxy Root \<and>
   httpMethod (routes (GLSInfrastructureStack ''S''
      \<lparr>streamGroupId = ''sg-abc123456'', applicationId = ''a-1'', account = None,
       region = None\<rparr> ''u'') ! 4) \<noteq> ''OPTIONS'' \<and>
   methodResponses (routes (GLSInfrastructureStack ''S''
      \<lparr>streamGroupId = ''sg-abc123456'', applicationId = ''a-1'', account = None,
       region = None\<rparr> ''u'') ! 4) = Some
       [\<lparr>statusCode = ''200'',
         responseParameters = Some
           [(''method.response.header.Content-Type'', True),
            (''method.response.header.Access-Control-Allow-Origin'', True),
            (''method.response.header.Access-Control-Allow-Headers'', True),
            (''method.response.header.Access-Control-Allow-Methods'', True)]\<rparr>,
        \<lparr>statusCode = ''400'', responseParameters = None\<rparr>,
        \<lparr>statusCode = ''500'', responseParameters = None\<rparr>]"
proof -
  define st where "st = GLSInfrastructureStack ''S''
      \<lparr>streamGroupId = ''sg-abc123456'', applicationId = ''a-1'', account = None,
       region = None\<rparr> ''u''"
  have len: "length (routes st) = 11"
    by (simp add: st_def routes_def stack_defs)
  then have mem: "routes st ! 4 \<in> set (routes st)" by simp
  have res: "resource (routes st ! 4) \<noteq> Proxy Root"
    by (simp add: st_def routes_def stack_defs)
  have verb: "httpMethod (routes st ! 4) \<noteq> ''OPTIONS''"
    by (simp add: st_def routes_def stack_defs)
  from declared_named_routes_share_response_contract[of "''S''"
      "\<lparr>streamGroupId = ''sg-abc123456'', applicationId = ''a-1'', account = None,
        region = None\<rparr>" "''u''", folded st_def] mem res verb
  have "methodResponses (routes st ! 4) = Some
       [\<lparr>statusCode = ''200'',
         responseParameters = Some
           [(''method.response.header.Content-Type'', True),
            (''method.response.header.Access-Control-Allow-Origin'', True),
            (''method.response.header.Access-Control-Allow-Headers'', True),
            (''method.response.header.Access-Control-Allow-Methods'', True)]\<rparr>,
        \<lparr>statusCode = ''400'', responseParameters = None\<rparr>,
        \<lparr>statusCode = ''500'', responseParameters = None\<rparr>]"
    by (metis (no_types, lifting))
  with mem res verb show ?thesis unfolding st_def by blast
qed

text \<open>
  C8. The stack declares one CORS policy: every origin, every method, exactly the five
  request headers Content-Type, X-Amz-Date, Authorization, X-Api-Key and
  X-Amz-Security-Token, and a preflight cache duration of one day (86400 seconds).
\<close>

theorem cors_policy_exact:
  "cors_policies (GLSInfrastructureStack i p u) =
     [\<lparr>allowOrigins = ALL_ORIGINS,
       allowMethods = ALL_METHODS,
       allowHeaders =
         [''Content-Type'', ''X-Amz-Date'', ''Authorization'', ''X-Api-Key'',
          ''X-Amz-Security-Token''],
       maxAge = Days 1\<rparr>] \<and>
   map (\<lambda>c. toSeconds (maxAge c)) (cors_policies (GLSInfrastructureStack i p u)) = [86400]"
  by (simp add: cors_policies_def stack_defs)

section \<open>Module initialisation: failure and defaults\<close>

text \<open>
  C5. If validation of the stream group identifier fails, initialisation ends with that
  error and the app is as it was created: it holds no stack, hence no grant and no
  route, and nothing has been constructed that could be handed on.
\<close>

theorem invalid_identifier_aborts_assembly:
  "validateStreamGroupId (or_default (env ''STREAM_GROUP_ID'') ''sg-000000000'') = Inl e \<Longrightarrow>
   app_initialization env u = (Inl e, new_App) \<and>
   stacks (snd (app_initialization env u)) = [] \<and>
   app_grants (snd (app_initialization env u)) = [] \<and>
   app_routes (snd (app_initialization env u)) = []"
  by (simp add: app_initialization_def Let_def new_App_def app_grants_def app_routes_def)

theorem invalid_identifier_aborts_assembly_witness:
  "validateStreamGroupId
     (or_default ([''STREAM_GROUP_ID'' \<mapsto> ''sg-123''] ''STREAM_GROUP_ID'') ''sg-000000000'') =
     Inl FormatError \<and>
   app_initialization [''STREAM_GROUP_ID'' \<mapsto> ''sg-123''] ''u'' = (Inl FormatError, new_App) \<and>
   stacks (snd (app_initialization [''STREAM_GROUP_ID'' \<mapsto> ''sg-123''] ''u'')) = [] \<and>
   app_grants (snd (app_initialization [''STREAM_GROUP_ID'' \<mapsto> ''sg-123''] ''u'')) = [] \<and>
   app_routes (snd (app_initialization [''STREAM_GROUP_ID'' \<mapsto> ''sg-123''] ''u'')) = []"
proof -
  have bad: "validateStreamGroupId
     (or_default ([''STREAM_GROUP_ID'' \<mapsto> ''sg-123''] ''STREAM_GROUP_ID'') ''sg-000000000'') =
     Inl FormatError"
    by (simp add: or_default_def validateStreamGroupId_cases spec_pattern_def)
  from invalid_identifier_aborts_assembly
      [of "[''STREAM_GROUP_ID'' \<mapsto> ''sg-123'']" FormatError "''u''", OF bad] bad
  show ?thesis by blast
qed




end
